theory Spec2Isabelle
  imports Complex_Main
begin

section \<open>Aurora alert: the decision and normalisation engine\<close>

text \<open>
  A shallow embedding of the pure decision logic of \<^verbatim>\<open>aurora_alert.py\<close>.
  Python's unbounded integers are \<^typ>\<open>int\<close>.  A Python float is read as the real
  number it denotes: the code only compares floats with \<open>>=\<close> against constants that
  are exact doubles (5, 6, 7, 7.0, 8), which agrees with the comparison of reals.
\<close>

subsection \<open>Cooldown and dedupe ledger\<close>

text \<open>
  The ledger is the dictionary \<^verbatim>\<open>state\<close>.  It has two optional entries, each a
  dictionary of its own: \<^verbatim>\<open>"last_sent"\<close> (alert class to epoch seconds) and
  \<^verbatim>\<open>"forecast"\<close> (holding \<^verbatim>\<open>"last_peak_time"\<close>).  An entry that is absent from
  the dictionary is \<open>None\<close>.  The epoch values are the integers that \<^verbatim>\<open>mark_sent\<close>
  stores, on which \<^verbatim>\<open>int(...)\<close> is the identity.
\<close>

record state =
  last_sent :: "(string \<rightharpoonup> int) option"
  forecast :: "(string \<rightharpoonup> string) option"

text \<open>\<^verbatim>\<open>d.get(key, {})\<close> for a dictionary-valued entry.\<close>

definition get_dict :: "('k \<rightharpoonup> 'v) option \<Rightarrow> ('k \<rightharpoonup> 'v)" where
  "get_dict d = (case d of None \<Rightarrow> Map.empty | Some m \<Rightarrow> m)"

text \<open>\<^verbatim>\<open>m.get(key, default)\<close>.\<close>

definition get_default :: "('k \<rightharpoonup> 'v) \<Rightarrow> 'k \<Rightarrow> 'v \<Rightarrow> 'v" where
  "get_default m k d = (case m k of None \<Rightarrow> d | Some v \<Rightarrow> v)"

definition can_send_now :: "state \<Rightarrow> string \<Rightarrow> int \<Rightarrow> int \<Rightarrow> bool" where
  "can_send_now st key cooldown_seconds now_ts =
     (let last_ts = get_default (get_dict (last_sent st)) key 0
      in (now_ts - last_ts) \<ge> cooldown_seconds)"

text \<open>\<^verbatim>\<open>setdefault\<close> keeps an existing sub-dictionary and installs an empty one otherwise.\<close>

definition mark_sent :: "state \<Rightarrow> string \<Rightarrow> int \<Rightarrow> state" where
  "mark_sent st key now_ts =
     st\<lparr>last_sent := Some ((get_dict (last_sent st))(key \<mapsto> now_ts))\<rparr>"

definition should_send_forecast :: "state \<Rightarrow> string \<Rightarrow> int \<Rightarrow> int \<Rightarrow> bool" where
  "should_send_forecast st peak_time now_ts cooldown_seconds =
     (let last_peak = (get_dict (forecast st)) ''last_peak_time''
      in if last_peak \<noteq> Some peak_time
         then can_send_now st ''FORECAST'' cooldown_seconds now_ts
         else can_send_now st ''FORECAST'' cooldown_seconds now_ts)"

definition mark_forecast_peak :: "state \<Rightarrow> string \<Rightarrow> state" where
  "mark_forecast_peak st peak_time =
     st\<lparr>forecast := Some ((get_dict (forecast st))(''last_peak_time'' \<mapsto> peak_time))\<rparr>"

subsection \<open>Labels and priority\<close>

text \<open>
  \<^verbatim>\<open>kp_label\<close> returns a pair of a Polish label and an icon; the five pairs are the
  constructors below (EKSTREMALNA, BARDZO DUZA, DUZA, SREDNIA, NISKA).
\<close>

datatype tier = EKSTREMALNA | BARDZO_DUZA | DUZA | SREDNIA | NISKA

definition kp_label :: "real \<Rightarrow> tier" where
  "kp_label kp =
     (if kp \<ge> 8 then EKSTREMALNA
      else if kp \<ge> 7 then BARDZO_DUZA
      else if kp \<ge> 6 then DUZA
      else if kp \<ge> 5 then SREDNIA
      else NISKA)"

text \<open>The traffic light: green, yellow and red circle emoji.\<close>

datatype light = GREEN | YELLOW | RED

text \<open>
  \<^verbatim>\<open>nowcast_kp\<close> is \<^verbatim>\<open>Optional[float]\<close>; \<^verbatim>\<open>isinstance(nowcast_kp, (int, float))\<close>
  holds exactly when it is not \<^verbatim>\<open>None\<close>.
\<close>

definition pick_priority_emoji :: "bool \<Rightarrow> bool \<Rightarrow> bool \<Rightarrow> bool \<Rightarrow> real option \<Rightarrow> light" where
  "pick_priority_emoji send_now_flag send_forecast_flag now_gate_ok best_ok nowcast_kp =
     (if (case nowcast_kp of None \<Rightarrow> False | Some v \<Rightarrow> v \<ge> 7.0) \<and> now_gate_ok then GREEN
      else if send_now_flag \<and> now_gate_ok then GREEN
      else if (\<not> send_now_flag) \<and> send_forecast_flag \<and> best_ok then YELLOW
      else RED)"

subsection \<open>JSON values and Python's operations on them\<close>

text \<open>
  The value that \<^verbatim>\<open>json.loads\<close> returns: \<^verbatim>\<open>None\<close>, a bool, an int, a float, a
  string, a list or a dictionary with string keys (an association list read with
  \<^const>\<open>map_of\<close>).  A string is the list of its code points, each below 256.
\<close>

datatype json =
    JNull
  | JBool bool
  | JInt int
  | JFloat real
  | JStr string
  | JList "json list"
  | JDict "(string \<times> json) list"

text \<open>The exceptions that the modelled code can raise; all are subclasses of \<^verbatim>\<open>Exception\<close>.\<close>

datatype error =
  TypeError | KeyError | IndexError | OverflowError | ValueError | OSError | RuntimeError

text \<open>Truth value of an object, as \<^verbatim>\<open>not x\<close> and \<^verbatim>\<open>if x\<close> read it.\<close>

fun py_truthy :: "json \<Rightarrow> bool" where
  "py_truthy JNull = False"
| "py_truthy (JBool b) = b"
| "py_truthy (JInt i) = (i \<noteq> 0)"
| "py_truthy (JFloat r) = (r \<noteq> 0)"
| "py_truthy (JStr s) = (s \<noteq> [])"
| "py_truthy (JList l) = (l \<noteq> [])"
| "py_truthy (JDict d) = (d \<noteq> [])"

text \<open>\<^verbatim>\<open>len(x)\<close>: a TypeError on \<^verbatim>\<open>None\<close> and on numbers.\<close>

fun py_len :: "json \<Rightarrow> error + nat" where
  "py_len (JStr s) = Inr (length s)"
| "py_len (JList l) = Inr (length l)"
| "py_len (JDict d) = Inr (length (remdups (map fst d)))"
| "py_len _ = Inl TypeError"

text \<open>
  \<^verbatim>\<open>x[i]\<close> for a literal index \<open>i \<ge> 0\<close>: an IndexError out of range, a KeyError on a
  dictionary (its keys are strings), a TypeError on \<^verbatim>\<open>None\<close> and on numbers.
\<close>

fun py_index :: "json \<Rightarrow> nat \<Rightarrow> error + json" where
  "py_index (JList l) i = (if i < length l then Inr (l ! i) else Inl IndexError)"
| "py_index (JStr s) i = (if i < length s then Inr (JStr [s ! i]) else Inl IndexError)"
| "py_index (JDict d) i = Inl KeyError"
| "py_index _ i = Inl TypeError"

text \<open>
  \<^verbatim>\<open>str(x)\<close> is the string itself on a string.  On any other value it is the value's
  printed form, which the parameter \<open>repr\<close> supplies.
\<close>

definition py_str :: "(json \<Rightarrow> string) \<Rightarrow> json \<Rightarrow> string" where
  "py_str repr v = (case v of JStr s \<Rightarrow> s | _ \<Rightarrow> repr v)"

subsection \<open>The value coercion \<^verbatim>\<open>to_kp_float\<close>\<close>

text \<open>\<^verbatim>\<open>str.strip()\<close>: the code points below 256 for which \<^verbatim>\<open>isspace()\<close> holds.\<close>

definition is_space :: "char \<Rightarrow> bool" where
  "is_space c = ((of_char c :: nat) \<in> {9, 10, 11, 12, 13, 28, 29, 30, 31, 32, 133, 160})"

definition strip :: "string \<Rightarrow> string" where
  "strip s = rev (dropWhile is_space (rev (dropWhile is_space s)))"

text \<open>\<^verbatim>\<open>s.replace(",", ".")\<close>.\<close>

definition replace_comma :: "string \<Rightarrow> string" where
  "replace_comma s = map (\<lambda>c. if c = CHR '','' then CHR ''.'' else c) s"

text \<open>\<^verbatim>\<open>\d\<close> on code points below 256.\<close>

definition is_digit :: "char \<Rightarrow> bool" where
  "is_digit c = (c \<in> set ''0123456789'')"

text \<open>
  The alternation \<^verbatim>\<open>(?:\d+\.?\d*|\d*\.?\d+)\<close> matched at the start of \<open>s\<close>, greedy and
  leftmost alternative first; the result is the matched text.  The first alternative
  needs a digit; it then takes every digit, a dot if one follows, and every digit after
  it.  When \<open>s\<close> has no digit at its start, the second alternative can only match a dot
  followed by at least one digit.
\<close>

definition match_number :: "string \<Rightarrow> string option" where
  "match_number s =
     (let ds = takeWhile is_digit s; r = dropWhile is_digit s in
      if ds \<noteq> [] then
        (case r of
           c # r' \<Rightarrow> if c = CHR ''.'' then Some (ds @ [c] @ takeWhile is_digit r') else Some ds
         | [] \<Rightarrow> Some ds)
      else
        (case s of
           c # r' \<Rightarrow> if c = CHR ''.'' \<and> takeWhile is_digit r' \<noteq> []
                     then Some (c # takeWhile is_digit r') else None
         | [] \<Rightarrow> None))"

text \<open>
  The whole pattern \<^verbatim>\<open>[-+]?(?:...)\<close> at the start of \<open>s\<close>: the sign is taken when
  present, and given back when the number does not match after it.
\<close>

definition match_signed :: "string \<Rightarrow> string option" where
  "match_signed s =
     (case s of
        c # r \<Rightarrow>
          if c = CHR ''-'' \<or> c = CHR ''+'' then
            (case match_number r of Some m \<Rightarrow> Some (c # m) | None \<Rightarrow> match_number s)
          else match_number s
      | [] \<Rightarrow> match_number s)"

text \<open>\<^verbatim>\<open>re.search\<close>: the match at the leftmost position that has one.\<close>

fun re_search :: "string \<Rightarrow> string option" where
  "re_search [] = match_signed []"
| "re_search (c # r) =
     (case match_signed (c # r) of Some m \<Rightarrow> Some m | None \<Rightarrow> re_search r)"

definition digit_val :: "char \<Rightarrow> nat" where
  "digit_val c = of_char c - 48"

definition nat_of_digits :: "string \<Rightarrow> nat" where
  "nat_of_digits ds = foldl (\<lambda>a c. 10 * a + digit_val c) 0 ds"

text \<open>
  \<^verbatim>\<open>float(text)\<close> on plain decimal text: an optional sign, then digits with an optional
  dot and fraction, or a dot and a fraction; the value is the number the text denotes.
  \<open>None\<close> stands for the ValueError on any other text.
\<close>

definition float_of_decimal :: "string \<Rightarrow> real option" where
  "float_of_decimal s =
     (let (sgn, r) = (case s of
                        c # r' \<Rightarrow> if c = CHR ''-'' then (- 1, r')
                                  else if c = CHR ''+'' then (1, r') else (1, s)
                      | [] \<Rightarrow> (1 :: real, s));
          ip = takeWhile is_digit r;
          rest = dropWhile is_digit r
      in case rest of
           [] \<Rightarrow> if ip = [] then None else Some (sgn * real (nat_of_digits ip))
         | c # fp \<Rightarrow>
             if c = CHR ''.'' \<and> list_all is_digit fp \<and> (ip \<noteq> [] \<or> fp \<noteq> [])
             then Some (sgn * (real (nat_of_digits ip)
                               + real (nat_of_digits fp) / 10 ^ length fp))
             else None)"

text \<open>
  \<^verbatim>\<open>float(i)\<close> on an int raises OverflowError when \<open>i\<close> rounds beyond the largest double.
\<close>

definition float_of_int :: "int \<Rightarrow> error + real" where
  "float_of_int i =
     (if \<bar>i\<bar> \<ge> 2 ^ 1024 - 2 ^ 970 then Inl OverflowError else Inr (real_of_int i))"

text \<open>
  \<^verbatim>\<open>isinstance(v, (int, float))\<close> holds on a bool as well, which is an int (0 or 1).
\<close>

fun to_kp_float :: "json \<Rightarrow> error + real option" where
  "to_kp_float JNull = Inr None"
| "to_kp_float (JBool b) = Inr (Some (if b then 1 else 0))"
| "to_kp_float (JInt i) = (case float_of_int i of Inl e \<Rightarrow> Inl e | Inr r \<Rightarrow> Inr (Some r))"
| "to_kp_float (JFloat r) = Inr (Some r)"
| "to_kp_float (JStr v) =
     (let s = replace_comma (strip v) in
      case re_search s of
        None \<Rightarrow> Inr None
      | Some m \<Rightarrow> (case float_of_decimal m of Some r \<Rightarrow> Inr (Some r) | None \<Rightarrow> Inr None))"
| "to_kp_float _ = Inr None"

subsection \<open>The nowcast feed normaliser \<^verbatim>\<open>kp_nowcast\<close>\<close>

text \<open>
  The loop \<^verbatim>\<open>for k in keys: if k in d and d.get(k) is not None: val = d.get(k); break\<close>.
  The result \<open>None\<close> is the initial \<^verbatim>\<open>None\<close> of the variable.
\<close>

fun first_present :: "string list \<Rightarrow> (string \<times> json) list \<Rightarrow> json option" where
  "first_present [] d = None"
| "first_present (k # ks) d =
     (case map_of d k of
        Some v \<Rightarrow> if v \<noteq> JNull then Some v else first_present ks d
      | None \<Rightarrow> first_present ks d)"

definition kp_keys :: "string list" where
  "kp_keys = [''kp'', ''estimated_kp'', ''k_index'', ''kp_index'', ''kp_value'', ''value'']"

definition time_keys :: "string list" where
  "time_keys = [''time_tag'', ''time'', ''datetime'', ''timestamp'', ''date'']"

definition container_keys :: "string list" where
  "container_keys = [''data'', ''values'', ''k_index'', ''planetary_k_index'', ''results'']"

type_synonym reading = "real option \<times> string option"

text \<open>The single-record lookup, shared by the last record of a list and the dict itself.\<close>

definition pick_record :: "(json \<Rightarrow> string) \<Rightarrow> (string \<times> json) list \<Rightarrow> error + reading" where
  "pick_record repr d =
     (let kp_val = first_present kp_keys d; time_val = first_present time_keys d in
      case (kp_val, time_val) of
        (Some kv, Some tv) \<Rightarrow>
          (case to_kp_float kv of
             Inl e \<Rightarrow> Inl e
           | Inr None \<Rightarrow> Inr (None, None)
           | Inr (Some kp_f) \<Rightarrow> Inr (Some kp_f, Some (py_str repr tv)))
      | _ \<Rightarrow> Inr (None, None))"

definition pick_from_list_of_dicts :: "(json \<Rightarrow> string) \<Rightarrow> json list \<Rightarrow> error + reading" where
  "pick_from_list_of_dicts repr items =
     (if items = [] then Inr (None, None)
      else case last items of
             JDict d \<Rightarrow> pick_record repr d
           | _ \<Rightarrow> Inr (None, None))"

text \<open>The three shape tests of the source, in its order.\<close>

definition is_format_A :: "json \<Rightarrow> bool" where
  "is_format_A data = (case data of JList (JList h # rows) \<Rightarrow> True | _ \<Rightarrow> False)"

definition is_format_B :: "json \<Rightarrow> bool" where
  "is_format_B data =
     (case data of JList [] \<Rightarrow> True | JList (JDict d # rest) \<Rightarrow> True | _ \<Rightarrow> False)"

definition is_format_C :: "json \<Rightarrow> bool" where
  "is_format_C data = (case data of JDict d \<Rightarrow> True | _ \<Rightarrow> False)"

text \<open>Format A: a header row, then rows; only the last row is read.\<close>

definition format_A :: "(json \<Rightarrow> string) \<Rightarrow> json list \<Rightarrow> error + reading" where
  "format_A repr data =
     (let rows = tl data in
      if rows = [] then Inr (None, None)
      else
        let lst = last rows in
        if \<not> py_truthy lst then Inr (None, None)
        else case py_len lst of
          Inl e \<Rightarrow> Inl e
        | Inr n \<Rightarrow>
            if n < 2 then Inr (None, None)
            else case py_index lst 1 of
              Inl e \<Rightarrow> Inl e
            | Inr v \<Rightarrow>
                (case to_kp_float v of
                   Inl e \<Rightarrow> Inl e
                 | Inr None \<Rightarrow> Inr (None, None)
                 | Inr (Some kp_f) \<Rightarrow>
                     (case py_index lst 0 of
                        Inl e \<Rightarrow> Inl e
                      | Inr t \<Rightarrow> Inr (Some kp_f, Some (py_str repr t)))))"

text \<open>
  Format C: the first container key that is present and holds a list decides; without
  one the dict itself is read as a single record.
\<close>

fun container_list :: "string list \<Rightarrow> (string \<times> json) list \<Rightarrow> json list option" where
  "container_list [] d = None"
| "container_list (k # ks) d =
     (case map_of d k of
        Some (JList items) \<Rightarrow> Some items
      | _ \<Rightarrow> container_list ks d)"

definition format_C :: "(json \<Rightarrow> string) \<Rightarrow> (string \<times> json) list \<Rightarrow> error + reading" where
  "format_C repr d =
     (case container_list container_keys d of
        Some items \<Rightarrow> pick_from_list_of_dicts repr items
      | None \<Rightarrow> pick_record repr d)"

text \<open>
  The body of the \<^verbatim>\<open>try\<close> block after the fetch.  The debug printing has no effect on
  the result and is left out.
\<close>

definition kp_nowcast_body :: "(json \<Rightarrow> string) \<Rightarrow> json \<Rightarrow> error + reading" where
  "kp_nowcast_body repr data =
     (if is_format_A data then (case data of JList l \<Rightarrow> format_A repr l | _ \<Rightarrow> Inr (None, None))
      else if is_format_B data then
        (case data of JList l \<Rightarrow> pick_from_list_of_dicts repr l | _ \<Rightarrow> Inr (None, None))
      else if is_format_C data then
        (case data of JDict d \<Rightarrow> format_C repr d | _ \<Rightarrow> Inr (None, None))
      else Inr (None, None))"

text \<open>
  \<^verbatim>\<open>kp_nowcast\<close>, given what \<^verbatim>\<open>fetch_json\<close> does: it raises (\<open>Inl\<close>) or returns the
  decoded value.  The handler \<^verbatim>\<open>except Exception\<close> turns every exception of the block
  into \<^verbatim>\<open>(None, None)\<close>.
\<close>

definition kp_nowcast :: "(json \<Rightarrow> string) \<Rightarrow> error + json \<Rightarrow> error + reading" where
  "kp_nowcast repr fetched =
     (case (case fetched of Inl e \<Rightarrow> Inl e | Inr data \<Rightarrow> kp_nowcast_body repr data) of
        Inl e \<Rightarrow> Inr (None, None)
      | Inr r \<Rightarrow> Inr r)"

subsection \<open>The peak window locator \<^verbatim>\<open>meteo_best_slot_around_peak\<close>\<close>

text \<open>
  The decoded Open-Meteo response, as far as the function reads it: the \<^verbatim>\<open>hourly\<close>
  block with its three parallel arrays and \<^verbatim>\<open>utc_offset_seconds\<close>.  A key that is
  absent is \<open>None\<close>.  Cloud cover and the day flag are the integers of the feed, on
  which \<^verbatim>\<open>int(...)\<close> is the identity.
\<close>

record hourly_block =
  time :: "string list option"
  cloud_cover :: "int list option"
  is_day :: "int list option"

record meteo_response =
  hourly :: "hourly_block option"
  utc_offset_seconds :: "int option"

text \<open>\<^verbatim>\<open>data.get("hourly", {})\<close> and the three \<^verbatim>\<open>hourly.get(key, [])\<close>.\<close>

definition get_list :: "'a list option \<Rightarrow> 'a list" where
  "get_list l = (case l of None \<Rightarrow> [] | Some xs \<Rightarrow> xs)"

definition hourly_times :: "meteo_response \<Rightarrow> string list" where
  "hourly_times data = (case hourly data of None \<Rightarrow> [] | Some h \<Rightarrow> get_list (time h))"

definition hourly_clouds :: "meteo_response \<Rightarrow> int list" where
  "hourly_clouds data = (case hourly data of None \<Rightarrow> [] | Some h \<Rightarrow> get_list (cloud_cover h))"

definition hourly_is_days :: "meteo_response \<Rightarrow> int list" where
  "hourly_is_days data = (case hourly data of None \<Rightarrow> [] | Some h \<Rightarrow> get_list (is_day h))"

text \<open>\<^verbatim>\<open>int(data.get("utc_offset_seconds", 0))\<close>.\<close>

definition offset_sec :: "meteo_response \<Rightarrow> int" where
  "offset_sec data = (case utc_offset_seconds data of None \<Rightarrow> 0 | Some v \<Rightarrow> v)"

text \<open>
  The loop over \<^verbatim>\<open>enumerate(times)\<close>, with \<^verbatim>\<open>(best_cloud, best_time)\<close> as its state.
  The parameter \<open>strptime\<close> is the library call
  \<^verbatim>\<open>int(datetime.strptime(tstr, "%Y-%m-%dT%H:%M").replace(tzinfo=timezone.utc).timestamp())\<close>:
  the epoch of the naive time read as UTC, or \<open>None\<close> for its ValueError.
\<close>

fun slot_loop ::
  "(string \<Rightarrow> int option) \<Rightarrow> int \<Rightarrow> int \<Rightarrow> int \<Rightarrow> int \<Rightarrow> int list \<Rightarrow> int list
     \<Rightarrow> (nat \<times> string) list \<Rightarrow> int option \<times> string option \<Rightarrow> int option \<times> string option"
where
  "slot_loop strptime offs start_ts end_ts max_cloud clouds is_days [] best = best"
| "slot_loop strptime offs start_ts end_ts max_cloud clouds is_days ((i, tstr) # rest)
     (best_cloud, best_time) =
     (case strptime tstr of
        None \<Rightarrow>
          slot_loop strptime offs start_ts end_ts max_cloud clouds is_days rest
            (best_cloud, best_time)
      | Some naive \<Rightarrow>
          (let ts = naive + offs in
           if ts < start_ts \<or> ts > end_ts then
             slot_loop strptime offs start_ts end_ts max_cloud clouds is_days rest
               (best_cloud, best_time)
           else
             let isd = is_days ! i; cloud = clouds ! i in
             if isd \<noteq> 0 then
               slot_loop strptime offs start_ts end_ts max_cloud clouds is_days rest
                 (best_cloud, best_time)
             else if cloud > max_cloud then
               slot_loop strptime offs start_ts end_ts max_cloud clouds is_days rest
                 (best_cloud, best_time)
             else if (case best_cloud of None \<Rightarrow> True | Some b \<Rightarrow> cloud < b) then
               slot_loop strptime offs start_ts end_ts max_cloud clouds is_days rest
                 (Some cloud, Some tstr)
             else
               slot_loop strptime offs start_ts end_ts max_cloud clouds is_days rest
                 (best_cloud, best_time)))"

text \<open>
  The function, given the fetched response; \<open>peak_ts\<close> is
  \<^verbatim>\<open>int(peak_dt_utc.timestamp())\<close>.  The indices \<open>is_days[i]\<close> and \<open>clouds[i]\<close> of the
  loop are in range, since the three lengths are equal when the loop is reached.
\<close>

definition meteo_best_slot_around_peak ::
  "(string \<Rightarrow> int option) \<Rightarrow> meteo_response \<Rightarrow> int \<Rightarrow> int \<Rightarrow> int
     \<Rightarrow> bool \<times> int option \<times> string option"
where
  "meteo_best_slot_around_peak strptime data peak_ts window_hours max_cloud =
     (let times = hourly_times data;
          clouds = hourly_clouds data;
          is_days = hourly_is_days data
      in if times = [] \<or> length times \<noteq> length clouds \<or> length times \<noteq> length is_days
         then (False, None, None)
         else
           let offs = offset_sec data;
               peak_local_ts = peak_ts + offs;
               start_ts = peak_local_ts - window_hours * 3600;
               end_ts = peak_local_ts + window_hours * 3600;
               (best_cloud, best_time) =
                 slot_loop strptime offs start_ts end_ts max_cloud clouds is_days
                   (zip [0 ..< length times] times) (None, None)
           in if best_cloud = None then (False, None, None)
              else (True, best_cloud, best_time))"

text \<open>
  The qualification of sample \<open>i\<close> in the words of the specification: its shifted epoch
  lies within the peak's local epoch plus or minus the window, it is dark, and its cloud
  cover is at most the ceiling.  It is used to state the properties of the locator.
\<close>

definition sample_qualifies ::
  "(string \<Rightarrow> int option) \<Rightarrow> meteo_response \<Rightarrow> int \<Rightarrow> int \<Rightarrow> int \<Rightarrow> nat \<Rightarrow> bool"
where
  "sample_qualifies strptime data peak_ts window_hours max_cloud i =
     ((case strptime (hourly_times data ! i) of
         None \<Rightarrow> False
       | Some naive \<Rightarrow>
           peak_ts + offset_sec data - window_hours * 3600 \<le> naive + offset_sec data
           \<and> naive + offset_sec data \<le> peak_ts + offset_sec data + window_hours * 3600)
      \<and> hourly_is_days data ! i = 0
      \<and> hourly_clouds data ! i \<le> max_cloud)"

subsection \<open>The run: \<^verbatim>\<open>main\<close>\<close>

text \<open>
  The configuration that \<^verbatim>\<open>main\<close> reads from the environment variables, as far as the
  decisions and the sending depend on it.
\<close>

record config =
  cfg_gmail_user :: string
  cfg_gmail_app_password :: string
  cfg_recipients :: "string list"
  cfg_now_min_kp :: real
  cfg_forecast_min_kp :: real
  cfg_max_cloud :: int
  cfg_now_cd :: int
  cfg_forecast_cd :: int
  cfg_peak_window_h :: int
  cfg_nowcast_enabled :: bool

text \<open>
  What the outside world does in one run, each call raising (\<open>Inl\<close>, or \<open>Some\<close> of an
  error) or returning: the clock \<^verbatim>\<open>utc_now_ts()\<close>; \<^verbatim>\<open>meteo_gate_now\<close> (night flag and
  cloud cover); \<^verbatim>\<open>kp_now\<close> (the current index); \<^verbatim>\<open>kp_forecast_max_next_hours\<close> (maximum,
  its time tag and its instant as an epoch, if parsed); the fetch of the nowcast feed; the
  fetch of the hourly forecast; \<^verbatim>\<open>build_email_pro\<close>; the SMTP session of
  \<^verbatim>\<open>send_gmail\<close>; and the writing of the ledger file in \<^verbatim>\<open>save_state\<close>.
\<close>

record env =
  env_clock :: int
  env_gate_now :: "error + (bool \<times> int)"
  env_kp_now :: "error + real"
  env_kp_forecast :: "error + (real \<times> string \<times> int option)"
  env_nowcast :: "error + json"
  env_meteo :: "error + meteo_response"
  env_build_email :: "error option"
  env_smtp :: "error option"
  env_save :: "error option"

text \<open>
  How a run ends: normally or with an exception, the in-memory ledger at that moment
  (\<open>None\<close> before \<^verbatim>\<open>load_state\<close>), the content of the ledger file (\<open>None\<close> when there is
  no readable file), and what the call of \<^verbatim>\<open>send_gmail\<close> did (\<open>None\<close> when it was not
  called).
\<close>

record run =
  outcome :: "error + unit"
  ledger :: "state option"
  ledger_file :: "state option"
  send_result :: "(error + unit) option"

text \<open>\<^verbatim>\<open>load_state\<close>: the empty dictionary when the file is missing or unreadable.\<close>

definition load_state :: "state option \<Rightarrow> state" where
  "load_state f = (case f of None \<Rightarrow> \<lparr>last_sent = None, forecast = None\<rparr> | Some st \<Rightarrow> st)"

text \<open>\<^verbatim>\<open>send_gmail\<close>: a ValueError without recipients, otherwise what the SMTP session does.\<close>

definition send_gmail :: "string list \<Rightarrow> error option \<Rightarrow> error + unit" where
  "send_gmail to_addrs smtp =
     (if to_addrs = [] then Inl ValueError
      else case smtp of Some e \<Rightarrow> Inl e | None \<Rightarrow> Inr ())"

text \<open>The NOW decision of \<^verbatim>\<open>main\<close>.\<close>

definition now_decision :: "config \<Rightarrow> state \<Rightarrow> int \<Rightarrow> real \<Rightarrow> bool \<Rightarrow> int \<Rightarrow> bool" where
  "now_decision cfg st now kp_current is_night_now cloud_now =
     (if kp_current \<ge> cfg_now_min_kp cfg then
        if is_night_now \<and> cloud_now \<le> cfg_max_cloud cfg then
          if can_send_now st ''NOW'' (cfg_now_cd cfg) now then True else False
        else False
      else False)"

text \<open>
  The FORECAST decision of \<^verbatim>\<open>main\<close>: the flag with the best window, or the exception
  of the fetch inside \<^verbatim>\<open>meteo_best_slot_around_peak\<close>.
\<close>

definition forecast_decision ::
  "(string \<Rightarrow> int option) \<Rightarrow> config \<Rightarrow> env \<Rightarrow> state \<Rightarrow> int \<Rightarrow> real \<Rightarrow> string \<Rightarrow> int option
     \<Rightarrow> error + (bool \<times> int option \<times> string option)"
where
  "forecast_decision strptime cfg ev st now kp_fc_max kp_fc_time kp_fc_dt =
     (case kp_fc_dt of
        None \<Rightarrow> Inr (False, None, None)
      | Some peak_ts \<Rightarrow>
          if kp_fc_max \<ge> cfg_forecast_min_kp cfg then
            (case env_meteo ev of
               Inl e \<Rightarrow> Inl e
             | Inr data \<Rightarrow>
                 (case meteo_best_slot_around_peak strptime data peak_ts
                         (cfg_peak_window_h cfg) (cfg_max_cloud cfg) of
                    (ok, best_cloud, best_time_local) \<Rightarrow>
                      if ok then
                        if should_send_forecast st kp_fc_time now (cfg_forecast_cd cfg)
                        then Inr (True, best_cloud, best_time_local)
                        else Inr (False, best_cloud, best_time_local)
                      else Inr (False, best_cloud, best_time_local)))
          else Inr (False, None, None))"

text \<open>
  The end of \<^verbatim>\<open>main\<close>, once an alert is to be sent: build the message, send it, then
  mark the ledger and save it.
\<close>

definition send_and_record ::
  "config \<Rightarrow> env \<Rightarrow> state \<Rightarrow> state option \<Rightarrow> int \<Rightarrow> bool \<Rightarrow> bool \<Rightarrow> string \<Rightarrow> run"
where
  "send_and_record cfg ev st file0 now send_now_flag send_forecast_flag kp_fc_time =
     (case env_build_email ev of
        Some e \<Rightarrow>
          \<lparr>outcome = Inl e, ledger = Some st, ledger_file = file0, send_result = None\<rparr>
      | None \<Rightarrow>
          (case send_gmail (cfg_recipients cfg) (env_smtp ev) of
             Inl e \<Rightarrow>
               \<lparr>outcome = Inl e, ledger = Some st, ledger_file = file0,
                send_result = Some (Inl e)\<rparr>
           | Inr u \<Rightarrow>
               (let st1 = (if send_now_flag then mark_sent st ''NOW'' now else st);
                    st2 = (if send_forecast_flag
                           then mark_forecast_peak (mark_sent st1 ''FORECAST'' now) kp_fc_time
                           else st1)
                in case env_save ev of
                     Some e \<Rightarrow>
                       \<lparr>outcome = Inl e, ledger = Some st2, ledger_file = file0,
                        send_result = Some (Inr ())\<rparr>
                   | None \<Rightarrow>
                       \<lparr>outcome = Inr (), ledger = Some st2, ledger_file = Some st2,
                        send_result = Some (Inr ())\<rparr>)))"

text \<open>A run that an exception ends before \<^verbatim>\<open>send_gmail\<close> is called.\<close>

definition stopped :: "state option \<Rightarrow> state option \<Rightarrow> error \<Rightarrow> run" where
  "stopped st file0 e =
     \<lparr>outcome = Inl e, ledger = st, ledger_file = file0, send_result = None\<rparr>"

definition main ::
  "(string \<Rightarrow> int option) \<Rightarrow> (json \<Rightarrow> string) \<Rightarrow> config \<Rightarrow> env \<Rightarrow> state option \<Rightarrow> run"
where
  "main strptime repr cfg ev file0 =
     (if cfg_gmail_user cfg = [] \<or> cfg_gmail_app_password cfg = []
      then stopped None file0 RuntimeError
      else if cfg_recipients cfg = [] then stopped None file0 RuntimeError
      else
        let st = load_state file0; now = env_clock ev in
        case env_gate_now ev of
          Inl e \<Rightarrow> stopped (Some st) file0 e
        | Inr (is_night_now, cloud_now) \<Rightarrow>
        case env_kp_now ev of
          Inl e \<Rightarrow> stopped (Some st) file0 e
        | Inr kp_current \<Rightarrow>
        case env_kp_forecast ev of
          Inl e \<Rightarrow> stopped (Some st) file0 e
        | Inr (kp_fc_max, kp_fc_time, kp_fc_dt) \<Rightarrow>
        case (if cfg_nowcast_enabled cfg then kp_nowcast repr (env_nowcast ev)
              else Inr (None, None)) of
          Inl e \<Rightarrow> stopped (Some st) file0 e
        | Inr nowcast \<Rightarrow>
        let send_now_flag = now_decision cfg st now kp_current is_night_now cloud_now in
        case forecast_decision strptime cfg ev st now kp_fc_max kp_fc_time kp_fc_dt of
          Inl e \<Rightarrow> stopped (Some st) file0 e
        | Inr (send_forecast_flag, best_cloud, best_time_local) \<Rightarrow>
            if \<not> (send_now_flag \<or> send_forecast_flag)
            then \<lparr>outcome = Inr (), ledger = Some st, ledger_file = file0, send_result = None\<rparr>
            else send_and_record cfg ev st file0 now send_now_flag send_forecast_flag
                   kp_fc_time)"

subsection \<open>Auxiliary definitions for the locator\<close>

text \<open>
  The conditions of the loop body under which a pair of \<^verbatim>\<open>enumerate(times)\<close> reaches the
  comparison with \<^verbatim>\<open>best_cloud\<close>, and the loop body as one step; both serve the proofs.
\<close>

definition pair_ok ::
  "(string \<Rightarrow> int option) \<Rightarrow> int \<Rightarrow> int \<Rightarrow> int \<Rightarrow> int \<Rightarrow> int list \<Rightarrow> int list
     \<Rightarrow> nat \<times> string \<Rightarrow> bool"
where
  "pair_ok P offs s e mc clouds is_days p =
     ((case P (snd p) of None \<Rightarrow> False | Some naive \<Rightarrow> s \<le> naive + offs \<and> naive + offs \<le> e)
      \<and> is_days ! fst p = 0 \<and> clouds ! fst p \<le> mc)"

definition slot_step ::
  "(string \<Rightarrow> int option) \<Rightarrow> int \<Rightarrow> int \<Rightarrow> int \<Rightarrow> int \<Rightarrow> int list \<Rightarrow> int list
     \<Rightarrow> int option \<times> string option \<Rightarrow> nat \<times> string \<Rightarrow> int option \<times> string option"
where
  "slot_step P offs s e mc clouds is_days best p =
     (if pair_ok P offs s e mc clouds is_days p
         \<and> (case fst best of None \<Rightarrow> True | Some b \<Rightarrow> clouds ! fst p < b)
      then (Some (clouds ! fst p), Some (snd p)) else best)"

text \<open>
  The loop invariant: after the pairs \<open>pre\<close>, the state is empty and no pair qualified,
  or it holds the cloud cover and time of a qualifying pair that is strictly below every
  qualifying pair before it and at most every qualifying pair after it.
\<close>

definition slot_inv ::
  "(string \<Rightarrow> int option) \<Rightarrow> int \<Rightarrow> int \<Rightarrow> int \<Rightarrow> int \<Rightarrow> int list \<Rightarrow> int list
     \<Rightarrow> (nat \<times> string) list \<Rightarrow> int option \<times> string option \<Rightarrow> bool"
where
  "slot_inv P offs s e mc clouds is_days pre best =
     (case fst best of
        None \<Rightarrow> snd best = None \<and> (\<forall>p \<in> set pre. \<not> pair_ok P offs s e mc clouds is_days p)
      | Some c \<Rightarrow>
          (\<exists>pre1 p pre2. pre = pre1 @ p # pre2 \<and> snd best = Some (snd p)
             \<and> pair_ok P offs s e mc clouds is_days p \<and> clouds ! fst p = c
             \<and> (\<forall>q \<in> set pre1. pair_ok P offs s e mc clouds is_days q \<longrightarrow> c < clouds ! fst q)
             \<and> (\<forall>q \<in> set pre2. pair_ok P offs s e mc clouds is_days q \<longrightarrow> c \<le> clouds ! fst q)))"

text \<open>An example response: four hourly samples of 1 January 2024, offset one hour.\<close>

definition example_strptime :: "string \<Rightarrow> int option" where
  "example_strptime = map_of
     [(''2024-01-01T00:00'', 1704067200), (''2024-01-01T01:00'', 1704070800),
      (''2024-01-01T02:00'', 1704074400), (''2024-01-01T03:00'', 1704078000),
      (''2024-01-01T04:00'', 1704081600)]"

definition example_meteo :: "string list \<Rightarrow> int list \<Rightarrow> int list \<Rightarrow> meteo_response" where
  "example_meteo ts cs ds =
     \<lparr>hourly = Some \<lparr>time = Some ts, cloud_cover = Some cs, is_day = Some ds\<rparr>,
      utc_offset_seconds = Some 3600\<rparr>"

definition example_times :: "string list" where
  "example_times = [''2024-01-01T00:00'', ''2024-01-01T01:00'', ''2024-01-01T02:00'',
                    ''2024-01-01T03:00'']"

subsection \<open>An example run\<close>

text \<open>
  A configuration with the default thresholds, and a run in which the current index is
  6.5 on a clear night and the forecast peaks at 7.2 with a good window; the parameter is
  what the SMTP session does.  The ledger file holds a NOW alert sent long before.
\<close>

definition example_config :: config where
  "example_config =
     \<lparr>cfg_gmail_user = ''user@example.org'', cfg_gmail_app_password = ''secret'',
      cfg_recipients = [''observer@example.org''],
      cfg_now_min_kp = 6, cfg_forecast_min_kp = 6, cfg_max_cloud = 70,
      cfg_now_cd = 7200, cfg_forecast_cd = 21600, cfg_peak_window_h = 2,
      cfg_nowcast_enabled = False\<rparr>"

definition example_env :: "error option \<Rightarrow> env" where
  "example_env smtp =
     \<lparr>env_clock = 1704067200, env_gate_now = Inr (True, 30), env_kp_now = Inr 6.5,
      env_kp_forecast = Inr (7.2, ''2024-01-01 02:00:00'', Some 1704074400),
      env_nowcast = Inl OSError,
      env_meteo = Inr (example_meteo example_times [80, 20, 40, 20] [0, 0, 0, 0]),
      env_build_email = None, env_smtp = smtp, env_save = None\<rparr>"

definition example_ledger :: state where
  "example_ledger = \<lparr>last_sent = Some [''NOW'' \<mapsto> 1704000000], forecast = None\<rparr>"

section \<open>Properties\<close>

subsection \<open>Cooldown\<close>

lemma get_after_mark:
  "get_default (get_dict (last_sent (mark_sent st key now_ts))) key d = now_ts"
  by (simp add: mark_sent_def get_default_def get_dict_def)

text \<open>
  C1 (as amended).  \<^verbatim>\<open>can_send_now\<close> holds exactly when the current epoch minus the
  ledger's \<^verbatim>\<open>last_sent\<close> entry for the key (0 when the key, or the whole
  \<^verbatim>\<open>last_sent\<close> dictionary, is absent) is at least the cooldown.  Right after
  \<^verbatim>\<open>mark_sent\<close> with the same epoch the elapsed time is 0, so it holds exactly when
  the cooldown is not positive: it is false for every positive cooldown.
\<close>

theorem can_send_now_cooldown:
  "can_send_now st key cd now_ts
     = (now_ts - (case last_sent st of None \<Rightarrow> 0
                  | Some m \<Rightarrow> (case m key of None \<Rightarrow> 0 | Some t \<Rightarrow> t)) \<ge> cd)
   \<and> can_send_now (mark_sent st key now_ts) key cd now_ts = (cd \<le> 0)
   \<and> can_send_now (mark_sent st key t0) key cd now_ts = (now_ts - t0 \<ge> cd)"
proof -
  have a: "can_send_now st key cd now_ts
     = (now_ts - (case last_sent st of None \<Rightarrow> 0
                  | Some m \<Rightarrow> (case m key of None \<Rightarrow> 0 | Some t \<Rightarrow> t)) \<ge> cd)"
    by (simp add: can_send_now_def get_default_def get_dict_def split: option.splits)
  have b: "can_send_now (mark_sent st key t0) key cd now_ts = (now_ts - t0 \<ge> cd)" for t0
    unfolding can_send_now_def Let_def get_after_mark ..
  from a b [of t0] b [of now_ts] show ?thesis by simp
qed

text \<open>
  C1 as stated fails: with a cooldown of 0 seconds \<^verbatim>\<open>can_send_now\<close> is true
  immediately after \<^verbatim>\<open>mark_sent\<close> with the same epoch.
\<close>

theorem can_send_now_after_mark_counterexample:
  "can_send_now (mark_sent \<lparr>last_sent = None, forecast = None\<rparr> ''NOW'' 1000) ''NOW'' 0 1000"
  by (simp add: can_send_now_def mark_sent_def get_default_def get_dict_def)

text \<open>
  C2.  \<^verbatim>\<open>should_send_forecast\<close> returns the same boolean as \<^verbatim>\<open>can_send_now\<close> for the
  class FORECAST, whatever the stored and the given peak identity are.
\<close>

theorem should_send_forecast_is_cooldown:
  "should_send_forecast st peak_time now_ts cd = can_send_now st ''FORECAST'' cd now_ts"
  by (simp add: should_send_forecast_def)

subsection \<open>Severity tier and priority\<close>

text \<open>
  C5.  \<^verbatim>\<open>kp_label\<close> is defined on every real and its thresholds are inclusive lower
  bounds: the extreme tier exactly from 8, very high on [7, 8), high on [6, 7), moderate
  on [5, 6) and low exactly below 5, negative values included.  In particular 8.0 is
  extreme and 5.99 is moderate.
\<close>

theorem kp_label_thresholds:
  "(kp_label kp = EKSTREMALNA) = (8 \<le> kp)
   \<and> (kp_label kp = BARDZO_DUZA) = (7 \<le> kp \<and> kp < 8)
   \<and> (kp_label kp = DUZA) = (6 \<le> kp \<and> kp < 7)
   \<and> (kp_label kp = SREDNIA) = (5 \<le> kp \<and> kp < 6)
   \<and> (kp_label kp = NISKA) = (kp < 5)
   \<and> kp_label (- \<bar>kp\<bar>) = NISKA
   \<and> kp_label 8.0 = EKSTREMALNA
   \<and> kp_label 5.99 = SREDNIA
   \<and> kp_label 6.0 = DUZA"
  by (auto simp: kp_label_def)

text \<open>
  C3.  \<^verbatim>\<open>pick_priority_emoji\<close> applies its rules in order.  It is green exactly when
  the observation gate holds and either a nowcast value of at least 7.0 is present or
  the NOW alert fires; otherwise it is yellow exactly when the NOW alert does not fire,
  the forecast alert fires and the best window is good; otherwise it is red.  A nowcast
  of 7.5 with the gate open is green whatever the flags are; a forecast alert alone with
  a good window and no nowcast is yellow; with the gate closed and neither alert firing
  it is red.
\<close>

theorem pick_priority_emoji_rules:
  "(pick_priority_emoji sn sf g b nc = GREEN)
      = (g \<and> ((\<exists>v. nc = Some v \<and> 7 \<le> v) \<or> sn))
   \<and> (pick_priority_emoji sn sf g b nc = YELLOW)
      = (pick_priority_emoji sn sf g b nc \<noteq> GREEN \<and> \<not> sn \<and> sf \<and> b)
   \<and> (pick_priority_emoji sn sf g b nc = RED)
      = (pick_priority_emoji sn sf g b nc \<noteq> GREEN \<and> pick_priority_emoji sn sf g b nc \<noteq> YELLOW)
   \<and> pick_priority_emoji sn sf True b (Some 7.5) = GREEN
   \<and> pick_priority_emoji True sf True b nc = GREEN
   \<and> pick_priority_emoji False True g True None = YELLOW
   \<and> pick_priority_emoji False True False True nc = YELLOW
   \<and> pick_priority_emoji False False False b nc = RED"
  by (cases nc) (auto simp: pick_priority_emoji_def)

subsection \<open>Value coercion\<close>

lemmas coercion_defs =
  strip_def replace_comma_def is_space_def is_digit_def match_signed_def match_number_def
  float_of_decimal_def nat_of_digits_def digit_val_def

text \<open>The examples of the coercion: a trailing qualifier and a comma separator.\<close>

lemma to_kp_float_examples:
  "to_kp_float (JStr ''6P'') = Inr (Some 6)"
  "to_kp_float (JStr ''7,3+'') = Inr (Some 7.3)"
  "to_kp_float (JStr ''not a number'') = Inr None"
  "to_kp_float (JStr '' -.5 '') = Inr (Some (- 0.5))"
  by (simp_all add: coercion_defs)

lemma to_kp_float_numbers:
  "to_kp_float (JFloat r) = Inr (Some r)"
  "\<bar>i\<bar> < 2 ^ 1024 - 2 ^ 970 \<Longrightarrow> to_kp_float (JInt i) = Inr (Some (real_of_int i))"
  by (simp_all add: float_of_int_def)

text \<open>
  C6.  The pattern is applied with \<^verbatim>\<open>re.search\<close>, which finds the first number
  anywhere in the string: on \<^verbatim>\<open>"Kp6"\<close>, a string with no leading number, the
  coercion returns 6.0 instead of no reading.
\<close>

theorem to_kp_float_number_not_leading:
  "to_kp_float (JStr ''Kp6'') = Inr (Some 6)"
  by (simp add: coercion_defs)

subsection \<open>Feed normaliser\<close>

lemma kp_nowcast_total: "\<not> isl (kp_nowcast repr fetched)"
  by (simp add: kp_nowcast_def split: sum.splits)

lemma kp_nowcast_absorbs:
  "isl (kp_nowcast_body repr data) \<Longrightarrow> kp_nowcast repr (Inr data) = Inr (None, None)"
  by (cases "kp_nowcast_body repr data") (simp_all add: kp_nowcast_def)

lemma kp_nowcast_unknown_shape:
  "\<not> is_format_A data \<Longrightarrow> \<not> is_format_B data \<Longrightarrow> \<not> is_format_C data
     \<Longrightarrow> kp_nowcast repr (Inr data) = Inr (None, None)"
  by (simp add: kp_nowcast_def kp_nowcast_body_def)

text \<open>
  C7.  \<^verbatim>\<open>kp_nowcast\<close> never raises, whatever the fetch returns or raises: a failed
  fetch, an exception inside the parsing and a top-level shape that is none of the three
  formats all give \<^verbatim>\<open>(None, None)\<close>.
\<close>

theorem kp_nowcast_never_raises:
  "\<not> isl (kp_nowcast repr fetched)
   \<and> (isl fetched \<longrightarrow> kp_nowcast repr fetched = Inr (None, None))
   \<and> (isl (kp_nowcast_body repr data) \<longrightarrow> kp_nowcast repr (Inr data) = Inr (None, None))
   \<and> (\<not> is_format_A data \<and> \<not> is_format_B data \<and> \<not> is_format_C data
        \<longrightarrow> kp_nowcast repr (Inr data) = Inr (None, None))"
proof -
  have "isl fetched \<longrightarrow> kp_nowcast repr fetched = Inr (None, None)"
    by (cases fetched) (simp_all add: kp_nowcast_def)
  then show ?thesis
    using kp_nowcast_total [of repr fetched] kp_nowcast_absorbs [of repr data]
      kp_nowcast_unknown_shape [of data repr]
    by blast
qed

text \<open>
  A failed fetch; a last row that is the number 5, on which \<^verbatim>\<open>len\<close> raises a
  TypeError; an integer too large for a float, on which \<^verbatim>\<open>float\<close> raises an
  OverflowError; and a top-level string.
\<close>

theorem kp_nowcast_never_raises_witness:
  "isl (Inl OSError :: error + json)
   \<and> kp_nowcast (\<lambda>_. []) (Inl OSError) = Inr (None, None)
   \<and> kp_nowcast_body (\<lambda>_. []) (JList [JList [], JInt 5]) = Inl TypeError
   \<and> kp_nowcast (\<lambda>_. []) (Inr (JList [JList [], JInt 5])) = Inr (None, None)
   \<and> kp_nowcast_body (\<lambda>_. []) (JList [JList [], JList [JStr ''t'', JInt (2 ^ 1024)]])
        = Inl OverflowError
   \<and> kp_nowcast (\<lambda>_. []) (Inr (JList [JList [], JList [JStr ''t'', JInt (2 ^ 1024)]]))
        = Inr (None, None)
   \<and> \<not> is_format_A (JStr ''x'') \<and> \<not> is_format_B (JStr ''x'') \<and> \<not> is_format_C (JStr ''x'')
   \<and> kp_nowcast (\<lambda>_. []) (Inr (JStr ''x'')) = Inr (None, None)"
proof -
  have a: "kp_nowcast_body (\<lambda>_. []) (JList [JList [], JInt 5]) = Inl TypeError"
    by (simp add: kp_nowcast_body_def is_format_A_def format_A_def)
  have b: "kp_nowcast_body (\<lambda>_. []) (JList [JList [], JList [JStr ''t'', JInt (2 ^ 1024)]])
        = Inl OverflowError"
    by (simp add: kp_nowcast_body_def is_format_A_def format_A_def float_of_int_def)
  have c: "\<not> is_format_A (JStr ''x'') \<and> \<not> is_format_B (JStr ''x'') \<and> \<not> is_format_C (JStr ''x'')"
    by (simp add: is_format_A_def is_format_B_def is_format_C_def)
  show ?thesis
    using a b c
      kp_nowcast_never_raises [of "\<lambda>_. []" "Inl OSError" "JList [JList [], JInt 5]"]
      kp_nowcast_never_raises [of "\<lambda>_. []" "Inl OSError"
        "JList [JList [], JList [JStr ''t'', JInt (2 ^ 1024)]]"]
      kp_nowcast_never_raises [of "\<lambda>_. []" "Inl OSError" "JStr ''x''"]
    by simp
qed

lemma format_A_complete_row:
  "format_A repr (JList h # rows @ [JList (t # v # rest)])
     = (case to_kp_float v of
          Inl e \<Rightarrow> Inl e
        | Inr None \<Rightarrow> Inr (None, None)
        | Inr (Some k) \<Rightarrow> Inr (Some k, Some (py_str repr t)))"
  by (simp add: format_A_def split: sum.splits option.splits)

lemma format_A_short_row:
  "length r < 2 \<Longrightarrow> format_A repr (JList h # rows @ [JList r]) = Inr (None, None)"
  by (cases r) (simp_all add: format_A_def)

lemma body_format_A:
  "kp_nowcast_body repr (JList (JList h # rows)) = format_A repr (JList h # rows)"
  by (simp add: kp_nowcast_body_def is_format_A_def)

text \<open>
  C8 (as amended).  On a tabular feed with a header only the last data row is read.
  When it is a row of at least two elements, the reading is the coercion of its element
  at index 1 with the string of its element at index 0, and absent when the coercion
  gives no value or raises.  When the last row has fewer than two elements the result
  is absent, whatever the earlier rows hold.
\<close>

theorem kp_nowcast_tabular_last_row:
  "kp_nowcast repr (Inr (JList (JList h # rows @ [JList (t # v # rest)])))
     = Inr (case to_kp_float v of
              Inr (Some k) \<Rightarrow> (Some k, Some (py_str repr t))
            | _ \<Rightarrow> (None, None))
   \<and> kp_nowcast repr (Inr (JList (JList h # rows @ [JList []]))) = Inr (None, None)
   \<and> kp_nowcast repr (Inr (JList (JList h # rows @ [JList [x]]))) = Inr (None, None)"
  by (simp add: kp_nowcast_def body_format_A format_A_complete_row format_A_short_row
      split: sum.splits option.splits)

text \<open>
  C8 as stated fails: a short final row gives no reading although the row before it is
  complete.
\<close>

theorem kp_nowcast_short_final_row_counterexample:
  "kp_nowcast (\<lambda>_. [])
     (Inr (JList [JList [JStr ''time_tag'', JStr ''kp''],
                  JList [JStr ''2024-01-01 00:00:00'', JInt 5],
                  JList [JStr ''2024-01-01 00:01:00'']]))
     = Inr (None, None)
   \<and> kp_nowcast (\<lambda>_. [])
     (Inr (JList [JList [JStr ''time_tag'', JStr ''kp''],
                  JList [JStr ''2024-01-01 00:00:00'', JInt 5]]))
     = Inr (Some 5, Some ''2024-01-01 00:00:00'')"
  by (simp add: kp_nowcast_def kp_nowcast_body_def is_format_A_def format_A_def
      float_of_int_def py_str_def)

subsection \<open>Peak window locator\<close>

lemma slot_loop_Cons:
  "slot_loop P offs s e mc clouds is_days (p # rest) best
     = slot_loop P offs s e mc clouds is_days rest (slot_step P offs s e mc clouds is_days best p)"
  by (cases p; cases best)
     (auto simp: slot_step_def pair_ok_def Let_def split: option.splits)

lemma slot_inv_step:
  assumes "slot_inv P offs s e mc clouds is_days pre best"
  shows "slot_inv P offs s e mc clouds is_days (pre @ [p]) (slot_step P offs s e mc clouds is_days best p)"
proof (cases "pair_ok P offs s e mc clouds is_days p
         \<and> (case fst best of None \<Rightarrow> True | Some b \<Rightarrow> clouds ! fst p < b)")
  case True
  have "\<forall>q \<in> set pre. pair_ok P offs s e mc clouds is_days q \<longrightarrow> clouds ! fst p < clouds ! fst q"
  proof (cases "fst best")
    case None
    with assms show ?thesis by (simp add: slot_inv_def)
  next
    case (Some c)
    with True have lt: "clouds ! fst p < c" by simp
    from assms Some obtain pre1 p0 pre2 where
      d: "pre = pre1 @ p0 # pre2" and c0: "clouds ! fst p0 = c"
      and a1: "\<forall>q \<in> set pre1. pair_ok P offs s e mc clouds is_days q \<longrightarrow> c < clouds ! fst q"
      and a2: "\<forall>q \<in> set pre2. pair_ok P offs s e mc clouds is_days q \<longrightarrow> c \<le> clouds ! fst q"
      by (auto simp: slot_inv_def)
    show ?thesis using lt d c0 a1 a2 by fastforce
  qed
  then have "\<exists>pre1 p' pre2. pre @ [p] = pre1 @ p' # pre2 \<and> Some (snd p) = Some (snd p')
             \<and> pair_ok P offs s e mc clouds is_days p' \<and> clouds ! fst p' = clouds ! fst p
             \<and> (\<forall>q \<in> set pre1. pair_ok P offs s e mc clouds is_days q \<longrightarrow> clouds ! fst p < clouds ! fst q)
             \<and> (\<forall>q \<in> set pre2. pair_ok P offs s e mc clouds is_days q \<longrightarrow> clouds ! fst p \<le> clouds ! fst q)"
    using True by (intro exI [of _ pre] exI [of _ p] exI [of _ "[]"]) simp
  with True show ?thesis by (simp add: slot_inv_def slot_step_def)
next
  case False
  then have st: "slot_step P offs s e mc clouds is_days best p = best"
    unfolding slot_step_def by (rule if_not_P)
  show ?thesis
  proof (cases "fst best")
    case None
    with False have "\<not> pair_ok P offs s e mc clouds is_days p" by simp
    with assms None show ?thesis by (simp add: st slot_inv_def)
  next
    case (Some c)
    from assms Some obtain pre1 p0 pre2 where
      d: "pre = pre1 @ p0 # pre2" and sb: "snd best = Some (snd p0)"
      and ok0: "pair_ok P offs s e mc clouds is_days p0" and c0: "clouds ! fst p0 = c"
      and a1: "\<forall>q \<in> set pre1. pair_ok P offs s e mc clouds is_days q \<longrightarrow> c < clouds ! fst q"
      and a2: "\<forall>q \<in> set pre2. pair_ok P offs s e mc clouds is_days q \<longrightarrow> c \<le> clouds ! fst q"
      by (auto simp: slot_inv_def)
    from False Some have np: "pair_ok P offs s e mc clouds is_days p \<longrightarrow> c \<le> clouds ! fst p"
      by auto
    have "\<exists>pre1' p' pre2'. pre @ [p] = pre1' @ p' # pre2' \<and> snd best = Some (snd p')
             \<and> pair_ok P offs s e mc clouds is_days p' \<and> clouds ! fst p' = c
             \<and> (\<forall>q \<in> set pre1'. pair_ok P offs s e mc clouds is_days q \<longrightarrow> c < clouds ! fst q)
             \<and> (\<forall>q \<in> set pre2'. pair_ok P offs s e mc clouds is_days q \<longrightarrow> c \<le> clouds ! fst q)"
      using d sb ok0 c0 a1 a2 np
      by (intro exI [of _ pre1] exI [of _ p0] exI [of _ "pre2 @ [p]"]) auto
    with Some show ?thesis by (simp add: st slot_inv_def)
  qed
qed

lemma slot_inv_loop:
  "slot_inv P offs s e mc clouds is_days pre best
     \<Longrightarrow> slot_inv P offs s e mc clouds is_days (pre @ xs)
           (slot_loop P offs s e mc clouds is_days xs best)"
proof (induction xs arbitrary: pre best)
  case Nil
  then show ?case by simp
next
  case (Cons p xs)
  from slot_inv_step [OF Cons.prems, of p]
  have "slot_inv P offs s e mc clouds is_days ((pre @ [p]) @ xs)
           (slot_loop P offs s e mc clouds is_days xs (slot_step P offs s e mc clouds is_days best p))"
    by (rule Cons.IH)
  then show ?case by (simp add: slot_loop_Cons)
qed

lemma zip_upt_nth: "j < length ts \<Longrightarrow> zip [0 ..< length ts] ts ! j = (j, ts ! j)"
  by simp

lemma zip_upt_len:
  assumes d: "zip [0 ..< length ts] ts = pre1 @ p # pre2"
  shows "length ts = length pre1 + Suc (length pre2)"
proof -
  have "length (zip [0 ..< length ts] ts) = length (pre1 @ p # pre2)"
    by (simp only: d)
  then show ?thesis by simp
qed

lemma zip_upt_app_nth:
  assumes d: "zip [0 ..< length ts] ts = pre1 @ p # pre2" and j: "j < length ts"
  shows "(pre1 @ p # pre2) ! j = (j, ts ! j)"
proof -
  have "zip [0 ..< length ts] ts ! j = (j, ts ! j)" by (rule zip_upt_nth [OF j])
  then show ?thesis by (simp only: d)
qed

lemma zip_upt_mid:
  assumes d: "zip [0 ..< length ts] ts = pre1 @ p # pre2"
  shows "length pre1 < length ts" and "p = (length pre1, ts ! length pre1)"
proof -
  from zip_upt_len [OF d] show l: "length pre1 < length ts" by arith
  have "(pre1 @ p # pre2) ! length pre1 = p" by (rule nth_append_length)
  with zip_upt_app_nth [OF d l] show "p = (length pre1, ts ! length pre1)" by simp
qed

lemma zip_upt_before:
  assumes d: "zip [0 ..< length ts] ts = pre1 @ p # pre2" and j: "j < length pre1"
  shows "(j, ts ! j) \<in> set pre1"
proof -
  from j zip_upt_len [OF d] have "j < length ts" by arith
  then have "(pre1 @ p # pre2) ! j = (j, ts ! j)" by (rule zip_upt_app_nth [OF d])
  moreover from j have "(pre1 @ p # pre2) ! j = pre1 ! j" by (simp add: nth_append)
  ultimately have "pre1 ! j = (j, ts ! j)" by simp
  moreover from j have "pre1 ! j \<in> set pre1" by (rule nth_mem)
  ultimately show ?thesis by simp
qed

lemma zip_upt_after:
  assumes d: "zip [0 ..< length ts] ts = pre1 @ p # pre2"
    and j1: "length pre1 < j" and j2: "j < length ts"
  shows "(j, ts ! j) \<in> set pre2"
proof -
  from j2 have e: "(pre1 @ p # pre2) ! j = (j, ts ! j)" by (rule zip_upt_app_nth [OF d])
  define k where "k = j - Suc (length pre1)"
  with j1 have k: "j = length pre1 + Suc k" by arith
  have "(pre1 @ p # pre2) ! (length pre1 + Suc k) = pre2 ! k"
    by (simp add: nth_append)
  with e k have "pre2 ! k = (j, ts ! j)" by simp
  moreover from k j2 zip_upt_len [OF d] have "k < length pre2" by arith
  then have "pre2 ! k \<in> set pre2" by (rule nth_mem)
  ultimately show ?thesis by simp
qed

lemma pair_ok_sample:
  "pair_ok P (offset_sec data) (peak + offset_sec data - W * 3600)
       (peak + offset_sec data + W * 3600) mc (hourly_clouds data) (hourly_is_days data)
       (i, hourly_times data ! i)
     = sample_qualifies P data peak W mc i"
  by (simp add: pair_ok_def sample_qualifies_def)

lemma best_slot_bad:
  "hourly_times data = [] \<or> length (hourly_times data) \<noteq> length (hourly_clouds data)
      \<or> length (hourly_times data) \<noteq> length (hourly_is_days data)
   \<Longrightarrow> meteo_best_slot_around_peak P data peak W mc = (False, None, None)"
  by (simp add: meteo_best_slot_around_peak_def)

lemma best_slot_loop_result:
  assumes ok: "\<not> (hourly_times data = [] \<or> length (hourly_times data) \<noteq> length (hourly_clouds data)
      \<or> length (hourly_times data) \<noteq> length (hourly_is_days data))"
    and l: "slot_loop P (offset_sec data) (peak + offset_sec data - W * 3600)
       (peak + offset_sec data + W * 3600) mc (hourly_clouds data) (hourly_is_days data)
       (zip [0 ..< length (hourly_times data)] (hourly_times data)) (None, None) = (bc, bt)"
  shows "meteo_best_slot_around_peak P data peak W mc
     = (if bc = None then (False, None, None) else (True, bc, bt))"
  using ok l by (simp add: meteo_best_slot_around_peak_def Let_def)

lemma best_slot_char:
  fixes P data peak W mc
  defines "tms \<equiv> hourly_times data" and "cls \<equiv> hourly_clouds data"
    and "r \<equiv> meteo_best_slot_around_peak P data peak W mc"
  defines "bad \<equiv> (tms = [] \<or> length tms \<noteq> length cls
                    \<or> length tms \<noteq> length (hourly_is_days data))"
  shows "(r = (False, None, None)
            \<and> (bad \<or> (\<forall>i < length tms. \<not> sample_qualifies P data peak W mc i)))
         \<or> (\<not> bad \<and> (\<exists>i < length tms. sample_qualifies P data peak W mc i
               \<and> (\<forall>j < length tms. sample_qualifies P data peak W mc j \<longrightarrow> cls ! i \<le> cls ! j)
               \<and> (\<forall>j < i. sample_qualifies P data peak W mc j \<longrightarrow> cls ! i < cls ! j)
               \<and> r = (True, Some (cls ! i), Some (tms ! i))))"
proof (cases bad)
  case True
  then show ?thesis unfolding r_def bad_def tms_def cls_def
    using best_slot_bad [of data P peak W mc] by blast
next
  case False
  let ?ok = "pair_ok P (offset_sec data) (peak + offset_sec data - W * 3600)
       (peak + offset_sec data + W * 3600) mc (hourly_clouds data) (hourly_is_days data)"
  let ?xs = "zip [0 ..< length tms] tms"
  obtain bc bt where l: "slot_loop P (offset_sec data) (peak + offset_sec data - W * 3600)
       (peak + offset_sec data + W * 3600) mc (hourly_clouds data) (hourly_is_days data)
       ?xs (None, None) = (bc, bt)"
    by (cases "slot_loop P (offset_sec data) (peak + offset_sec data - W * 3600)
       (peak + offset_sec data + W * 3600) mc (hourly_clouds data) (hourly_is_days data)
       ?xs (None, None)") blast
  have r: "r = (if bc = None then (False, None, None) else (True, bc, bt))"
    unfolding r_def using False l
    by (intro best_slot_loop_result) (simp_all add: bad_def tms_def cls_def)
  have "slot_inv P (offset_sec data) (peak + offset_sec data - W * 3600)
       (peak + offset_sec data + W * 3600) mc (hourly_clouds data) (hourly_is_days data) [] (None, None)"
    by (simp add: slot_inv_def)
  from slot_inv_loop [OF this, of ?xs]
  have inv: "slot_inv P (offset_sec data) (peak + offset_sec data - W * 3600)
       (peak + offset_sec data + W * 3600) mc (hourly_clouds data) (hourly_is_days data) ?xs (bc, bt)"
    by (simp add: l)
  show ?thesis
  proof (cases bc)
    case None
    with inv have no: "\<forall>p \<in> set ?xs. \<not> ?ok p" by (simp add: slot_inv_def)
    have "\<not> sample_qualifies P data peak W mc i" if "i < length tms" for i
    proof -
      from that have "?xs ! i \<in> set ?xs" by (intro nth_mem) simp
      with that have "(i, tms ! i) \<in> set ?xs" by simp
      with no have "\<not> ?ok (i, tms ! i)" by blast
      then show ?thesis by (simp add: pair_ok_sample tms_def)
    qed
    with r None show ?thesis by simp
  next
    case (Some c)
    with inv obtain pre1 p pre2 where
      d: "?xs = pre1 @ p # pre2" and sb: "bt = Some (snd p)"
      and okp: "?ok p" and cp: "cls ! fst p = c"
      and a1: "\<forall>q \<in> set pre1. ?ok q \<longrightarrow> c < cls ! fst q"
      and a2: "\<forall>q \<in> set pre2. ?ok q \<longrightarrow> c \<le> cls ! fst q"
      by (auto simp: slot_inv_def cls_def)
    let ?i = "length pre1"
    have p: "p = (?i, tms ! ?i)" by (rule zip_upt_mid(2) [OF d])
    have q: "sample_qualifies P data peak W mc ?i"
      using okp unfolding p by (simp add: pair_ok_sample tms_def)
    have c: "cls ! ?i = c" using cp by (simp add: p)
    have first: "\<forall>j < ?i. sample_qualifies P data peak W mc j \<longrightarrow> c < cls ! j"
    proof (intro allI impI)
      fix j assume j: "j < ?i" and qj: "sample_qualifies P data peak W mc j"
      from zip_upt_before [OF d j] a1 have "?ok (j, tms ! j) \<longrightarrow> c < cls ! j" by fastforce
      with qj show "c < cls ! j" by (simp add: pair_ok_sample tms_def)
    qed
    have least: "\<forall>j < length tms. sample_qualifies P data peak W mc j \<longrightarrow> c \<le> cls ! j"
    proof (intro allI impI)
      fix j assume j: "j < length tms" and qj: "sample_qualifies P data peak W mc j"
      consider "j < ?i" | "j = ?i" | "?i < j" by linarith
      then show "c \<le> cls ! j"
      proof cases
        case 1
        with first qj show ?thesis by fastforce
      next
        case 2
        with c show ?thesis by simp
      next
        case 3
        from zip_upt_after [OF d 3 j] a2 have "?ok (j, tms ! j) \<longrightarrow> c \<le> cls ! j" by fastforce
        with qj show ?thesis by (simp add: pair_ok_sample tms_def)
      qed
    qed
    have res: "r = (True, Some (cls ! ?i), Some (tms ! ?i))"
      using r Some sb c by (simp add: p)
    have first': "\<forall>j < ?i. sample_qualifies P data peak W mc j \<longrightarrow> cls ! ?i < cls ! j"
      using first by (simp only: c)
    have least': "\<forall>j < length tms. sample_qualifies P data peak W mc j \<longrightarrow> cls ! ?i \<le> cls ! j"
      using least by (simp only: c)
    have li: "?i < length tms" using zip_upt_mid(1) [OF d] by simp
    have "\<exists>i < length tms. sample_qualifies P data peak W mc i
               \<and> (\<forall>j < length tms. sample_qualifies P data peak W mc j \<longrightarrow> cls ! i \<le> cls ! j)
               \<and> (\<forall>j < i. sample_qualifies P data peak W mc j \<longrightarrow> cls ! i < cls ! j)
               \<and> r = (True, Some (cls ! i), Some (tms ! i))"
      using li q least' first' res by (intro exI [of _ ?i] conjI)
    with False show ?thesis by (intro disjI2 conjI)
  qed
qed

lemmas meteo_eval =
  hourly_times_def hourly_clouds_def hourly_is_days_def
  offset_sec_def get_list_def example_meteo_def example_strptime_def example_times_def
  sample_qualifies_def

text \<open>
  C4.  The locator returns \<^verbatim>\<open>(False, None, None)\<close> whenever the series is empty, the
  three parallel arrays differ in length, or no sample qualifies.  Otherwise it returns
  the cloud cover and the time of the qualifying sample with the lowest cloud cover, the
  first one in series order among those of equal cloud cover.
\<close>

theorem meteo_best_slot_selects:
  "(hourly_times data = [] \<or> length (hourly_times data) \<noteq> length (hourly_clouds data)
      \<or> length (hourly_times data) \<noteq> length (hourly_is_days data)
      \<or> (\<forall>i < length (hourly_times data). \<not> sample_qualifies P data peak W mc i)
    \<longrightarrow> meteo_best_slot_around_peak P data peak W mc = (False, None, None))
   \<and> (hourly_times data \<noteq> [] \<and> length (hourly_times data) = length (hourly_clouds data)
      \<and> length (hourly_times data) = length (hourly_is_days data)
      \<and> i < length (hourly_times data) \<and> sample_qualifies P data peak W mc i
      \<and> (\<forall>j < length (hourly_times data). sample_qualifies P data peak W mc j
             \<longrightarrow> hourly_clouds data ! i \<le> hourly_clouds data ! j)
      \<and> (\<forall>j < i. sample_qualifies P data peak W mc j
             \<longrightarrow> hourly_clouds data ! j \<noteq> hourly_clouds data ! i)
    \<longrightarrow> meteo_best_slot_around_peak P data peak W mc
          = (True, Some (hourly_clouds data ! i), Some (hourly_times data ! i)))"
proof (intro conjI impI)
  assume "hourly_times data = [] \<or> length (hourly_times data) \<noteq> length (hourly_clouds data)
      \<or> length (hourly_times data) \<noteq> length (hourly_is_days data)
      \<or> (\<forall>i < length (hourly_times data). \<not> sample_qualifies P data peak W mc i)"
  with best_slot_char [of P data peak W mc]
  show "meteo_best_slot_around_peak P data peak W mc = (False, None, None)"
    by blast
next
  assume a: "hourly_times data \<noteq> [] \<and> length (hourly_times data) = length (hourly_clouds data)
      \<and> length (hourly_times data) = length (hourly_is_days data)
      \<and> i < length (hourly_times data) \<and> sample_qualifies P data peak W mc i
      \<and> (\<forall>j < length (hourly_times data). sample_qualifies P data peak W mc j
             \<longrightarrow> hourly_clouds data ! i \<le> hourly_clouds data ! j)
      \<and> (\<forall>j < i. sample_qualifies P data peak W mc j
             \<longrightarrow> hourly_clouds data ! j \<noteq> hourly_clouds data ! i)"
  with best_slot_char [of P data peak W mc] obtain k where
    k: "k < length (hourly_times data)" and qk: "sample_qualifies P data peak W mc k"
    and mk: "\<forall>j < length (hourly_times data). sample_qualifies P data peak W mc j
               \<longrightarrow> hourly_clouds data ! k \<le> hourly_clouds data ! j"
    and fk: "\<forall>j < k. sample_qualifies P data peak W mc j
               \<longrightarrow> hourly_clouds data ! k < hourly_clouds data ! j"
    and r: "meteo_best_slot_around_peak P data peak W mc
          = (True, Some (hourly_clouds data ! k), Some (hourly_times data ! k))"
    by blast
  from a k qk mk have ceq: "hourly_clouds data ! k = hourly_clouds data ! i"
    by (meson order_antisym)
  have "\<not> i < k" using fk a ceq by fastforce
  moreover have "\<not> k < i" using a qk ceq by blast
  ultimately have "k = i" by simp
  with r show "meteo_best_slot_around_peak P data peak W mc
          = (True, Some (hourly_clouds data ! i), Some (hourly_times data ! i))"
    by simp
qed

text \<open>
  The series 80, 40, 20, 90 gives the sample of 20; of two samples of 20 the earlier wins;
  all samples too cloudy, all in daylight, arrays of different lengths and a response
  without hourly block give no window.
\<close>

theorem meteo_best_slot_selects_witness:
  "meteo_best_slot_around_peak example_strptime
      (example_meteo example_times [80, 40, 20, 90] [0, 0, 0, 0]) 1704074400 2 100
     = (True, Some 20, Some ''2024-01-01T02:00'')
   \<and> meteo_best_slot_around_peak example_strptime
      (example_meteo example_times [80, 20, 40, 20] [0, 0, 0, 0]) 1704074400 2 70
     = (True, Some 20, Some ''2024-01-01T01:00'')
   \<and> meteo_best_slot_around_peak example_strptime
      (example_meteo example_times [80, 71, 90, 100] [0, 0, 0, 0]) 1704074400 2 70
     = (False, None, None)
   \<and> meteo_best_slot_around_peak example_strptime
      (example_meteo example_times [80, 20, 40, 20] [1, 1, 1, 1]) 1704074400 2 70
     = (False, None, None)
   \<and> meteo_best_slot_around_peak example_strptime
      (example_meteo example_times [80, 20, 40] [0, 0, 0, 0]) 1704074400 2 70
     = (False, None, None)
   \<and> meteo_best_slot_around_peak example_strptime
      \<lparr>hourly = None, utc_offset_seconds = None\<rparr> 1704074400 2 70
     = (False, None, None)"
proof -
  let ?A = "example_meteo example_times [80, 40, 20, 90] [0, 0, 0, 0]"
  let ?B = "example_meteo example_times [80, 20, 40, 20] [0, 0, 0, 0]"
  let ?C = "example_meteo example_times [80, 71, 90, 100] [0, 0, 0, 0]"
  let ?D = "example_meteo example_times [80, 20, 40, 20] [1, 1, 1, 1]"
  let ?E = "example_meteo example_times [80, 20, 40] [0, 0, 0, 0]"
  let ?F = "\<lparr>hourly = None, utc_offset_seconds = None\<rparr>"
  have a: "hourly_times ?A \<noteq> [] \<and> length (hourly_times ?A) = length (hourly_clouds ?A)
      \<and> length (hourly_times ?A) = length (hourly_is_days ?A)
      \<and> 2 < length (hourly_times ?A) \<and> sample_qualifies example_strptime ?A 1704074400 2 100 2
      \<and> (\<forall>j < length (hourly_times ?A). sample_qualifies example_strptime ?A 1704074400 2 100 j
             \<longrightarrow> hourly_clouds ?A ! 2 \<le> hourly_clouds ?A ! j)
      \<and> (\<forall>j < 2. sample_qualifies example_strptime ?A 1704074400 2 100 j
             \<longrightarrow> hourly_clouds ?A ! j \<noteq> hourly_clouds ?A ! 2)"
    by (simp add: meteo_eval All_less_Suc numeral_2_eq_2)
  have b: "hourly_times ?B \<noteq> [] \<and> length (hourly_times ?B) = length (hourly_clouds ?B)
      \<and> length (hourly_times ?B) = length (hourly_is_days ?B)
      \<and> 1 < length (hourly_times ?B) \<and> sample_qualifies example_strptime ?B 1704074400 2 70 1
      \<and> (\<forall>j < length (hourly_times ?B). sample_qualifies example_strptime ?B 1704074400 2 70 j
             \<longrightarrow> hourly_clouds ?B ! 1 \<le> hourly_clouds ?B ! j)
      \<and> (\<forall>j < 1. sample_qualifies example_strptime ?B 1704074400 2 70 j
             \<longrightarrow> hourly_clouds ?B ! j \<noteq> hourly_clouds ?B ! 1)"
    by (simp add: meteo_eval All_less_Suc)
  have c: "\<forall>i < length (hourly_times ?C). \<not> sample_qualifies example_strptime ?C 1704074400 2 70 i"
    by (simp add: meteo_eval All_less_Suc)
  have d: "\<forall>i < length (hourly_times ?D). \<not> sample_qualifies example_strptime ?D 1704074400 2 70 i"
    by (simp add: meteo_eval All_less_Suc)
  have e: "length (hourly_times ?E) \<noteq> length (hourly_clouds ?E)"
    by (simp add: meteo_eval)
  have f: "hourly_times ?F = []"
    by (simp add: meteo_eval)
  have ra: "hourly_clouds ?A ! 2 = 20" "hourly_times ?A ! 2 = ''2024-01-01T02:00''"
    and rb: "hourly_clouds ?B ! 1 = 20" "hourly_times ?B ! 1 = ''2024-01-01T01:00''"
    by (simp_all add: meteo_eval)
  show ?thesis
    using a b c d e f
      meteo_best_slot_selects [of ?A example_strptime 1704074400 2 100 2]
      meteo_best_slot_selects [of ?B example_strptime 1704074400 2 70 1]
      meteo_best_slot_selects [of ?C example_strptime 1704074400 2 70 0]
      meteo_best_slot_selects [of ?D example_strptime 1704074400 2 70 0]
      meteo_best_slot_selects [of ?E example_strptime 1704074400 2 70 0]
      meteo_best_slot_selects [of ?F example_strptime 1704074400 2 70 0]
    unfolding ra rb by blast
qed

text \<open>
  C10.  Whenever the locator returns \<^verbatim>\<open>found = True\<close>, the returned time is an element
  of the time array at some index, the day flag at that index is 0, the returned cloud
  value is the cloud cover at that index and at most the ceiling, and the sample's shifted
  epoch lies within the peak's local epoch plus or minus the window.
\<close>

theorem meteo_best_slot_consistent:
  assumes "meteo_best_slot_around_peak P data peak W mc = (True, c, t)"
  shows "\<exists>i < length (hourly_times data).
           t = Some (hourly_times data ! i) \<and> c = Some (hourly_clouds data ! i)
           \<and> i < length (hourly_clouds data) \<and> i < length (hourly_is_days data)
           \<and> hourly_is_days data ! i = 0
           \<and> hourly_clouds data ! i \<le> mc
           \<and> (\<exists>naive. P (hourly_times data ! i) = Some naive
                 \<and> peak + offset_sec data - W * 3600 \<le> naive + offset_sec data
                 \<and> naive + offset_sec data \<le> peak + offset_sec data + W * 3600)"
proof -
  from assms have nf: "meteo_best_slot_around_peak P data peak W mc \<noteq> (False, None, None)"
    by simp
  with best_slot_char [of P data peak W mc] obtain i where
    i: "i < length (hourly_times data)" and q: "sample_qualifies P data peak W mc i"
    and l1: "length (hourly_times data) = length (hourly_clouds data)"
    and l2: "length (hourly_times data) = length (hourly_is_days data)"
    and r: "meteo_best_slot_around_peak P data peak W mc
              = (True, Some (hourly_clouds data ! i), Some (hourly_times data ! i))"
    by blast
  from r assms have ct: "c = Some (hourly_clouds data ! i)" "t = Some (hourly_times data ! i)"
    by simp_all
  from q have d: "hourly_is_days data ! i = 0" and m: "hourly_clouds data ! i \<le> mc"
    by (simp_all add: sample_qualifies_def)
  from q obtain naive where n: "P (hourly_times data ! i) = Some naive"
      "peak + offset_sec data - W * 3600 \<le> naive + offset_sec data"
      "naive + offset_sec data \<le> peak + offset_sec data + W * 3600"
    by (cases "P (hourly_times data ! i)") (simp_all add: sample_qualifies_def)
  from i l1 l2 have i1: "i < length (hourly_clouds data)" and i2: "i < length (hourly_is_days data)"
    by simp_all
  from n have "\<exists>naive. P (hourly_times data ! i) = Some naive
                 \<and> peak + offset_sec data - W * 3600 \<le> naive + offset_sec data
                 \<and> naive + offset_sec data \<le> peak + offset_sec data + W * 3600"
    by blast
  with i ct i1 i2 d m show ?thesis by (intro exI [of _ i] conjI)
qed

text \<open>The returned window of the example, found at an index of the series.\<close>

theorem meteo_best_slot_consistent_witness:
  "meteo_best_slot_around_peak example_strptime
      (example_meteo example_times [80, 20, 40, 20] [0, 0, 0, 0]) 1704074400 2 70
     = (True, Some 20, Some ''2024-01-01T01:00'')
   \<and> (\<exists>i < 4. ''2024-01-01T01:00'' = example_times ! i \<and> [80, 20, 40, 20] ! i = (20 :: int)
         \<and> [0, 0, 0, 0] ! i = (0 :: int) \<and> (20 :: int) \<le> 70
         \<and> (\<exists>naive. example_strptime (example_times ! i) = Some naive
               \<and> 1704074400 + 3600 - 2 * 3600 \<le> naive + 3600
               \<and> naive + 3600 \<le> 1704074400 + 3600 + 2 * 3600))"
proof -
  let ?B = "example_meteo example_times [80, 20, 40, 20] [0, 0, 0, 0]"
  have r: "meteo_best_slot_around_peak example_strptime ?B 1704074400 2 70
     = (True, Some 20, Some ''2024-01-01T01:00'')"
    by (simp add: meteo_best_slot_around_peak_def meteo_eval upt_rec)
  have ev: "hourly_times ?B = example_times" "hourly_clouds ?B = [80, 20, 40, 20]"
    "hourly_is_days ?B = [0, 0, 0, 0]" "offset_sec ?B = 3600" "length example_times = 4"
    by (simp_all add: meteo_eval)
  from meteo_best_slot_consistent [OF r]
  have "\<exists>i < 4. ''2024-01-01T01:00'' = example_times ! i \<and> [80, 20, 40, 20] ! i = (20 :: int)
         \<and> [0, 0, 0, 0] ! i = (0 :: int) \<and> (20 :: int) \<le> 70
         \<and> (\<exists>naive. example_strptime (example_times ! i) = Some naive
               \<and> 1704074400 + 3600 - 2 * 3600 \<le> naive + 3600
               \<and> naive + 3600 \<le> 1704074400 + 3600 + 2 * 3600)"
    unfolding ev by (elim exE conjE) (intro exI conjI, simp_all)
  with r show ?thesis by (rule conjI)
qed

subsection \<open>The run\<close>

lemma send_and_record_failed:
  "send_result (send_and_record cfg ev st file0 now sn sf pk) \<noteq> Some (Inr ())
     \<Longrightarrow> ledger (send_and_record cfg ev st file0 now sn sf pk) = Some st
         \<and> ledger_file (send_and_record cfg ev st file0 now sn sf pk) = file0"
  by (cases "env_build_email ev"; cases "send_gmail (cfg_recipients cfg) (env_smtp ev)";
      cases "env_save ev")
     (simp_all add: send_and_record_def Let_def)

lemma send_and_record_raises:
  "send_result (send_and_record cfg ev st file0 now sn sf pk) = Some (Inl e)
     \<Longrightarrow> outcome (send_and_record cfg ev st file0 now sn sf pk) = Inl e"
  by (cases "env_build_email ev"; cases "send_gmail (cfg_recipients cfg) (env_smtp ev)";
      cases "env_save ev")
     (simp_all add: send_and_record_def Let_def)

lemma main_cases:
  "(send_result (main P repr cfg ev file0) = None
      \<and> ledger_file (main P repr cfg ev file0) = file0
      \<and> (ledger (main P repr cfg ev file0) = None
           \<or> ledger (main P repr cfg ev file0) = Some (load_state file0)))
   \<or> (\<exists>sn sf pk. main P repr cfg ev file0
         = send_and_record cfg ev (load_state file0) file0 (env_clock ev) sn sf pk)"
  unfolding main_def Let_def stopped_def
  by (simp split: sum.split prod.split) blast

text \<open>
  C9.  When \<^verbatim>\<open>send_gmail\<close> raises, the run ends with that exception, the in-memory
  ledger is the loaded one and the ledger file is unchanged.  More generally, unless
  \<^verbatim>\<open>send_gmail\<close> was called and returned, the ledger file is unchanged and the ledger
  is the loaded one (or was never loaded): marking and saving happen only after a
  successful send.
\<close>

theorem main_marks_after_send:
  "(send_result (main P repr cfg ev file0) = Some (Inl e)
      \<longrightarrow> outcome (main P repr cfg ev file0) = Inl e
          \<and> ledger (main P repr cfg ev file0) = Some (load_state file0)
          \<and> ledger_file (main P repr cfg ev file0) = file0)
   \<and> (send_result (main P repr cfg ev file0) \<noteq> Some (Inr ())
      \<longrightarrow> ledger_file (main P repr cfg ev file0) = file0
          \<and> (ledger (main P repr cfg ev file0) = None
               \<or> ledger (main P repr cfg ev file0) = Some (load_state file0)))"
proof -
  have "send_result (main P repr cfg ev file0) = None
      \<and> ledger_file (main P repr cfg ev file0) = file0
      \<and> (ledger (main P repr cfg ev file0) = None
           \<or> ledger (main P repr cfg ev file0) = Some (load_state file0))
   \<or> (\<exists>sn sf pk. main P repr cfg ev file0
         = send_and_record cfg ev (load_state file0) file0 (env_clock ev) sn sf pk)"
    by (rule main_cases)
  then show ?thesis
  proof (elim disjE exE)
    assume "send_result (main P repr cfg ev file0) = None
      \<and> ledger_file (main P repr cfg ev file0) = file0
      \<and> (ledger (main P repr cfg ev file0) = None
           \<or> ledger (main P repr cfg ev file0) = Some (load_state file0))"
    then show ?thesis by simp
  next
    fix sn sf pk
    assume send: "main P repr cfg ev file0
         = send_and_record cfg ev (load_state file0) file0 (env_clock ev) sn sf pk"
    show ?thesis
      unfolding send
      using send_and_record_failed [of cfg ev "load_state file0" file0 "env_clock ev" sn sf pk]
        send_and_record_raises [of cfg ev "load_state file0" file0 "env_clock ev" sn sf pk e]
      by simp
  qed
qed

lemmas main_eval =
  main_def example_config_def example_env_def now_decision_def forecast_decision_def
  send_and_record_def send_gmail_def load_state_def can_send_now_def should_send_forecast_def
  get_default_def get_dict_def mark_sent_def mark_forecast_peak_def

lemma example_window:
  "meteo_best_slot_around_peak example_strptime
      (example_meteo example_times [80, 20, 40, 20] [0, 0, 0, 0]) 1704074400 2 70
     = (True, Some 20, Some ''2024-01-01T01:00'')"
  by (simp add: meteo_best_slot_around_peak_def meteo_eval upt_rec)

text \<open>
  The example run with a failing SMTP session: both alerts are due, the send raises, and
  the ledger and its file stay as they were.
\<close>

theorem main_marks_after_send_witness:
  "send_result (main example_strptime (\<lambda>_. []) example_config (example_env (Some OSError))
       (Some example_ledger)) = Some (Inl OSError)
   \<and> send_result (main example_strptime (\<lambda>_. []) example_config (example_env (Some OSError))
       (Some example_ledger)) \<noteq> Some (Inr ())
   \<and> outcome (main example_strptime (\<lambda>_. []) example_config (example_env (Some OSError))
       (Some example_ledger)) = Inl OSError
   \<and> ledger (main example_strptime (\<lambda>_. []) example_config (example_env (Some OSError))
       (Some example_ledger)) = Some example_ledger
   \<and> ledger_file (main example_strptime (\<lambda>_. []) example_config (example_env (Some OSError))
       (Some example_ledger)) = Some example_ledger"
proof -
  have s: "send_result (main example_strptime (\<lambda>_. []) example_config
       (example_env (Some OSError)) (Some example_ledger)) = Some (Inl OSError)"
    by (simp add: main_eval example_window example_ledger_def Let_def)
  have l: "load_state (Some example_ledger) = example_ledger"
    by (simp add: load_state_def)
  show ?thesis
    using s l
      main_marks_after_send [of example_strptime "\<lambda>_. []" example_config
        "example_env (Some OSError)" "Some example_ledger" OSError]
    by simp
qed

text \<open>The same run with a working SMTP session marks both classes and saves the ledger.\<close>

lemma main_example_success:
  "main example_strptime (\<lambda>_. []) example_config (example_env None) (Some example_ledger)
     = \<lparr>outcome = Inr (),
        ledger = Some \<lparr>last_sent = Some [''NOW'' \<mapsto> 1704067200, ''FORECAST'' \<mapsto> 1704067200],
                       forecast = Some [''last_peak_time'' \<mapsto> ''2024-01-01 02:00:00'']\<rparr>,
        ledger_file = Some \<lparr>last_sent = Some [''NOW'' \<mapsto> 1704067200, ''FORECAST'' \<mapsto> 1704067200],
                       forecast = Some [''last_peak_time'' \<mapsto> ''2024-01-01 02:00:00'']\<rparr>,
        send_result = Some (Inr ())\<rparr>"
  by (simp add: main_eval example_window example_ledger_def Let_def)

end
